theory Spec2Isabelle
  imports Main "HOL-Library.Sublist"
begin

section \<open>Data model\<close>

text \<open>
  A type is a constructor function.  A class value carries its identity, its \<open>name\<close> and the
  constructor it extends, as the prototype link of the class does; \<open>Object\<close> is the root.
\<close>

datatype ctor = Object | Class nat string ctor

fun name :: "ctor \<Rightarrow> string" where
  "name Object = ''Object''"
| "name (Class i n p) = n"

text \<open>A property key is a string or a Symbol (given by its description).\<close>

datatype pkey = StrKey string | SymKey string

text \<open>
  The key of an object literal that is a definition.  A node of a definition tree is a
  type or a composite shape and never both: an object with an own property named
  \<open>prototype\<close> passes the test of the builder for a type
  (\<open>any.hasOwnProperty('prototype')\<close>) and is no object literal of a definition.
\<close>

typedef okey = "{k :: pkey. k \<noteq> StrKey ''prototype''}"
  by (rule exI [of _ "SymKey []"]) simp

setup_lifting type_definition_okey

instantiation okey :: equal
begin

lift_definition equal_okey :: "okey \<Rightarrow> okey \<Rightarrow> bool" is "(=)" .

instance
  by standard (transfer, simp)

end

text \<open>
  A definition handed to an injection point: a constructor, an array literal, an object
  literal (own property names, then own symbols, in order), or \<open>undefined\<close> (what
  \<open>injects[ 0 ]\<close> is for an empty parameter list).
\<close>

datatype defn =
    TypeRef ctor
  | ArrayDef "defn list"
  | ObjectDef "(okey \<times> defn) list"
  | Undefined

datatype error =
    DuplicateConstructorInjection
  | MultiParameterPropertyInjection
  | InvalidAbstractTarget
  | InvalidInitTarget
  | DuplicateInit
  | AbstractInvocation string pkey
  | AbstractInstantiation string
  | CircularDependency "string list" string "string option"
  | TypeError
  | UserError string

section \<open>proto.js\<close>

text \<open>
  \<open>constructorChain\<close>: the constructor itself, then the constructor of each prototype up
  the chain, ending with \<open>Object\<close>.
\<close>

fun constructorChain :: "ctor \<Rightarrow> ctor list" where
  "constructorChain Object = [Object]"
| "constructorChain (Class i n p) = Class i n p # constructorChain p"

section \<open>module.js\<close>

record inject =
  inj_key :: pkey
  inj_definition :: defn
  inj_method :: bool

record DependencyData =
  injects :: "inject list"
  construct :: "defn list option"
  init :: "pkey option"
  abstract :: bool
  singleton :: bool

definition new_DependencyData :: DependencyData where
  "new_DependencyData =
     \<lparr>injects = [], construct = None, init = None, abstract = False, singleton = False\<rparr>"

text \<open>
  What \<open>type.prototype\<close> holds under a key of its own: a function written by the user, the
  function \<open>throwAbstract\<close> installed by \<open>declareAbstract\<close>, or some other value.
\<close>

datatype member = UserFunction | ThrowAbstract string pkey | OtherValue

text \<open>
  The store: \<open>data\<close> is the \<open>Map\<close> from types to their records, in insertion order;
  \<open>prototypes\<close> are the own properties of each \<open>type.prototype\<close>, which the declarations
  read and \<open>declareAbstract\<close> writes.
\<close>

record Module =
  data :: "(ctor \<times> DependencyData) list"
  prototypes :: "ctor \<Rightarrow> pkey \<Rightarrow> member option"

definition new_Module :: "(ctor \<Rightarrow> pkey \<Rightarrow> member option) \<Rightarrow> Module" where
  "new_Module P = \<lparr>data = [], prototypes = P\<rparr>"

definition getData :: "Module \<Rightarrow> ctor \<Rightarrow> DependencyData option" where
  "getData m type = map_of (data m) type"

text \<open>\<open>Map.set\<close>: an existing key keeps its place, a new key goes last.\<close>

fun map_set :: "('k \<times> 'v) list \<Rightarrow> 'k \<Rightarrow> 'v \<Rightarrow> ('k \<times> 'v) list" where
  "map_set [] k v = [(k, v)]"
| "map_set ((k', v') # kvs) k v =
     (if k' = k then (k, v) # kvs else (k', v') # map_set kvs k v)"

text \<open>
  \<open>createData(type, properties)\<close>: create the record when there is none, then assign
  \<open>properties\<close> (here a function on records) to it.  Returns the record and the store.
\<close>

definition createData ::
  "Module \<Rightarrow> ctor \<Rightarrow> (DependencyData \<Rightarrow> DependencyData) \<Rightarrow> DependencyData \<times> Module" where
  "createData m type properties =
     (let m1 = (if map_of (data m) type = None
                then m\<lparr>data := map_set (data m) type new_DependencyData\<rparr> else m);
          d = properties (case getData m1 type of Some d0 \<Rightarrow> d0 | None \<Rightarrow> new_DependencyData)
      in (d, m1\<lparr>data := map_set (data m1) type d\<rparr>))"

text \<open>Writing a field of the record of \<open>type\<close>, which \<open>createData\<close> has returned before.\<close>

definition setData :: "Module \<Rightarrow> ctor \<Rightarrow> DependencyData \<Rightarrow> Module" where
  "setData m type d = m\<lparr>data := map_set (data m) type d\<rparr>"

text \<open>\<open>type.prototype[ key ]\<close>: the first own property along the prototype chain.\<close>

fun chain_get :: "(ctor \<Rightarrow> pkey \<Rightarrow> member option) \<Rightarrow> ctor list \<Rightarrow> pkey \<Rightarrow> member option" where
  "chain_get P [] k = None"
| "chain_get P (c # cs) k = (case P c k of Some x \<Rightarrow> Some x | None \<Rightarrow> chain_get P cs k)"

definition prototype_get :: "Module \<Rightarrow> ctor \<Rightarrow> pkey \<Rightarrow> member option" where
  "prototype_get m type k = chain_get (prototypes m) (constructorChain type) k"

text \<open>\<open>type.prototype[ key ] instanceof Function\<close>\<close>

definition is_Function :: "member option \<Rightarrow> bool" where
  "is_Function x = (case x of Some UserFunction \<Rightarrow> True | Some (ThrowAbstract n k) \<Rightarrow> True
                    | _ \<Rightarrow> False)"

text \<open>\<open>!key\<close>: no key, or the empty string.\<close>

definition falsy :: "pkey option \<Rightarrow> bool" where
  "falsy k = (k = None \<or> k = Some (StrKey []))"

text \<open>
  A declaration returns the store as it has left it, and either the error it has thrown or
  the types it has emitted \<open>Module.UPDATE\<close> for, in order.
\<close>

type_synonym declared = "Module \<times> (error + ctor list)"

definition declareInject :: "Module \<Rightarrow> ctor \<Rightarrow> pkey option \<Rightarrow> defn list \<Rightarrow> declared" where
  "declareInject m type k injs =
     (if falsy k then
        (let (d, m1) = createData m type id in
         if construct d \<noteq> None then (m1, Inl DuplicateConstructorInjection)
         else (setData m1 type (d\<lparr>construct := Some injs\<rparr>), Inr [type]))
      else if is_Function (prototype_get m type (the k)) then
        (let (d, m1) = createData m type id in
         (setData m1 type
            (d\<lparr>injects := injects d @
               [\<lparr>inj_key = the k, inj_definition = ArrayDef injs, inj_method = True\<rparr>]\<rparr>),
          Inr [type]))
      else if length injs > 1 then (m, Inl MultiParameterPropertyInjection)
      else
        (let (d, m1) = createData m type id in
         (setData m1 type
            (d\<lparr>injects := injects d @
               [\<lparr>inj_key = the k, inj_definition = (case injs of [] \<Rightarrow> Undefined | x # xs \<Rightarrow> x),
                 inj_method = False\<rparr>]\<rparr>),
          Inr [type])))"

text \<open>
  \<open>declareAbstract\<close>: the record is marked first.  With a key, the method is checked and
  replaced by \<open>throwAbstract\<close>, and the descriptor is returned from inside the branch; the
  \<open>emit\<close> after the branch is reached without a key only.
\<close>

definition declareAbstract :: "Module \<Rightarrow> ctor \<Rightarrow> pkey option \<Rightarrow> declared" where
  "declareAbstract m type k =
     (let (d, m1) = createData m type (\<lambda>d. d\<lparr>abstract := True\<rparr>) in
      if \<not> falsy k then
        (if \<not> is_Function (prototype_get m1 type (the k)) then (m1, Inl InvalidAbstractTarget)
         else
           (m1\<lparr>prototypes := (prototypes m1)
                  (type := (prototypes m1 type)(the k \<mapsto> ThrowAbstract (name type) (the k)))\<rparr>,
            Inr []))
      else (m1, Inr [type]))"



text \<open>The iterator of the store: its types, in insertion order.\<close>

definition types_of :: "Module \<Rightarrow> ctor list" where
  "types_of m = map fst (data m)"

section \<open>container.js: resolve\<close>

text \<open>
  \<open>resolve\<close>: \<open>while(type = this[ BINDING ].get(last)) { last = type; }\<close>.  The loop has no
  bound; a run that never leaves it has no result (\<open>None\<close>).
\<close>

partial_function (option) resolve :: "(ctor \<rightharpoonup> ctor) \<Rightarrow> ctor \<Rightarrow> ctor option" where
  "resolve b t = (case b t of None \<Rightarrow> Some t | Some type \<Rightarrow> resolve b type)"


section \<open>Results of effectful code\<close>

text \<open>
  A call that changes state \<open>'s\<close> returns the state as it has left it together with the
  exception thrown (\<open>Inl\<close>) or the value returned (\<open>Inr\<close>); \<open>None\<close> is a call that never
  returns.  \<open>bind_st\<close> sequences two calls: an exception of the first skips the second.
\<close>

type_synonym ('a, 's) res = "((error + 'a) \<times> 's) option"

definition bind_st :: "('a, 's) res \<Rightarrow> ('a \<Rightarrow> 's \<Rightarrow> ('b, 's) res) \<Rightarrow> ('b, 's) res" where
  "bind_st r f = (case r of None \<Rightarrow> None
                  | Some (Inl e, s) \<Rightarrow> Some (Inl e, s)
                  | Some (Inr x, s) \<Rightarrow> f x s)"

definition return_st :: "'a \<Rightarrow> 's \<Rightarrow> ('a, 's) res" where
  "return_st x s = Some (Inr x, s)"

definition throw_st :: "error \<Rightarrow> 's \<Rightarrow> ('a, 's) res" where
  "throw_st e s = Some (Inl e, s)"

section \<open>builder.js\<close>

text \<open>
  The source text that the builder generates, as a tree: \<open>Invoke t\<close> is
  \<open>p[ BUILD ]()\<close> for the closure parameter \<open>p\<close> that \<open>Params\<close> binds to \<open>t\<close>; array and
  object literals hold their element expressions in order.
\<close>

datatype expr =
    Invoke ctor
  | ArrayLit "expr list"
  | ObjectLit "(pkey \<times> expr) list"

text \<open>
  An injection statement of \<open>injectBuilder\<close>: the method call
  \<open>instance[ key ](args)\<close> whose result is pushed to \<open>promises\<close> when it has a \<open>then\<close>, or the
  assignment \<open>instance[ key ] = value\<close>.
\<close>

datatype stmt = CallMethod pkey "expr list" | Assign pkey expr

text \<open>
  How a promise settles: fulfilled with a value or rejected with an error, at a time given
  by a stamp, or pending for ever.
\<close>

datatype 'a settled = Fulfilled nat 'a | Rejected nat error | Pending

text \<open>
  Run-time values: an instance (its class, the constructor arguments and the properties
  assigned to it), array and object literals, a promise of the application with the way it
  settles, a promise made by a factory with \<open>then\<close>, and every other value
  (\<open>undefined\<close>, \<open>false\<close>, ...).  Only promises have a \<open>then\<close>.

  A promise made by a factory is given by what it waits for and what its callback does
  then: \<open>OnConstructed\<close> waits for the value of the constructor and goes on with the
  injections; \<open>OnInjected\<close> is \<open>Promise.all(promises).then(...)\<close> and goes on with the
  init method on the instance; \<open>OnInit\<close> waits for the result of the init method and
  returns the instance.
\<close>

datatype val =
    Instance ctor "val list" "(pkey \<times> val) list"
  | ArrayV "val list"
  | ObjectV "(pkey \<times> val) list"
  | Promise "val settled"
  | Primitive
  | Chained reaction
and reaction =
    OnConstructed val ctor "stmt list" "pkey option" bool
  | OnInjected "val list" ctor "pkey option" bool val
  | OnInit val val

text \<open>
  The function stored at \<open>type[ BUILD ]\<close>: the one that throws for an abstract type, the
  redirection to a bound implementation, the compiled factory (type, constructor arguments,
  injection statements, init key, singleton flag), or the one a singleton installs.
\<close>

datatype proc =
    ThrowAbstractInstantiation ctor
  | Redirect ctor
  | Factory ctor "expr list" "stmt list" "pkey option" bool
  | ReturnInstance val

type_synonym builds = "ctor \<rightharpoonup> proc"

type_synonym tbuilder = "ctor \<Rightarrow> bool \<Rightarrow> builds \<Rightarrow> (expr, builds) res"

text \<open>
  \<open>anyBuilder\<close>, \<open>arrayBuilder\<close>, \<open>objectBuilder\<close>.  \<open>tb\<close> is \<open>this.typeBuilder\<close>; \<open>rebuild\<close>
  reaches it from \<open>anyBuilder\<close> only, the literals pass none on.
\<close>

fun anyBuilder :: "(ctor \<rightharpoonup> ctor) \<Rightarrow> tbuilder \<Rightarrow> defn \<Rightarrow> bool \<Rightarrow> builds \<Rightarrow> (expr, builds) res"
and arrayBuilder :: "(ctor \<rightharpoonup> ctor) \<Rightarrow> tbuilder \<Rightarrow> defn list \<Rightarrow> builds \<Rightarrow> (expr list, builds) res"
and objectBuilder ::
  "(ctor \<rightharpoonup> ctor) \<Rightarrow> tbuilder \<Rightarrow> (okey \<times> defn) list \<Rightarrow> builds
     \<Rightarrow> ((pkey \<times> expr) list, builds) res"
where
  "anyBuilder b tb (ArrayDef ds) rebuild bs =
     bind_st (arrayBuilder b tb ds bs) (\<lambda>es. return_st (ArrayLit es))"
| "anyBuilder b tb (ObjectDef kvs) rebuild bs =
     bind_st (objectBuilder b tb kvs bs) (\<lambda>ps. return_st (ObjectLit ps))"
| "anyBuilder b tb Undefined rebuild bs = throw_st TypeError bs"
| "anyBuilder b tb (TypeRef any) rebuild bs =
     (case resolve b any of None \<Rightarrow> None
      | Some resolved \<Rightarrow>
          tb resolved rebuild (if resolved \<noteq> any then bs(any \<mapsto> Redirect resolved) else bs))"
| "arrayBuilder b tb [] bs = return_st [] bs"
| "arrayBuilder b tb (element # rest) bs =
     bind_st (anyBuilder b tb element False bs)
       (\<lambda>e bs1. bind_st (arrayBuilder b tb rest bs1) (\<lambda>es. return_st (e # es)))"
| "objectBuilder b tb [] bs = return_st [] bs"
| "objectBuilder b tb ((k, d) # rest) bs =
     bind_st (anyBuilder b tb d False bs)
       (\<lambda>e bs1. bind_st (objectBuilder b tb rest bs1)
                  (\<lambda>ps. return_st ((Rep_okey k, e) # ps)))"

text \<open>
  \<open>injectBuilder\<close>: the loop over \<open>data.injects\<close> inside the loop over the constructor
  chain; \<open>properties\<close> are the keys seen, \<open>body\<close> the statements so far.  A method's
  definition is iterated by \<open>arrayBuilder\<close>, which needs an array.
\<close>

fun injectBuilder_injects ::
  "(ctor \<rightharpoonup> ctor) \<Rightarrow> tbuilder \<Rightarrow> inject list \<Rightarrow> pkey set \<Rightarrow> stmt list \<Rightarrow> builds
     \<Rightarrow> (pkey set \<times> stmt list, builds) res" where
  "injectBuilder_injects b tb [] properties body bs = return_st (properties, body) bs"
| "injectBuilder_injects b tb (i # rest) properties body bs =
     (if inj_key i \<in> properties then injectBuilder_injects b tb rest properties body bs
      else if inj_method i then
        bind_st (case inj_definition i of ArrayDef ds \<Rightarrow> arrayBuilder b tb ds bs
                 | _ \<Rightarrow> throw_st TypeError bs)
          (\<lambda>es. injectBuilder_injects b tb rest (insert (inj_key i) properties)
                   (body @ [CallMethod (inj_key i) es]))
      else
        bind_st (anyBuilder b tb (inj_definition i) False bs)
          (\<lambda>e. injectBuilder_injects b tb rest (insert (inj_key i) properties)
                  (body @ [Assign (inj_key i) e])))"

fun injectBuilder_chain ::
  "Module \<Rightarrow> (ctor \<rightharpoonup> ctor) \<Rightarrow> tbuilder \<Rightarrow> ctor list \<Rightarrow> pkey set \<Rightarrow> stmt list \<Rightarrow> builds
     \<Rightarrow> (pkey set \<times> stmt list, builds) res" where
  "injectBuilder_chain m b tb [] properties body bs = return_st (properties, body) bs"
| "injectBuilder_chain m b tb (constructor # rest) properties body bs =
     (case getData m constructor of
        None \<Rightarrow> injectBuilder_chain m b tb rest properties body bs
      | Some d \<Rightarrow>
          bind_st (injectBuilder_injects b tb (injects d) properties body bs)
            (\<lambda>(properties', body'). injectBuilder_chain m b tb rest properties' body'))"

definition injectBuilder ::
  "Module \<Rightarrow> (ctor \<rightharpoonup> ctor) \<Rightarrow> tbuilder \<Rightarrow> ctor \<Rightarrow> builds \<Rightarrow> (stmt list, builds) res" where
  "injectBuilder m b tb type bs =
     bind_st (injectBuilder_chain m b tb (constructorChain type) {} [] bs)
       (\<lambda>(properties, body). return_st body)"

text \<open>
  \<open>typeBuilder\<close>.  The first argument bounds the depth of nested calls of \<open>typeBuilder\<close>;
  a call that needs more has no result.  \<open>getData(type) || Object.create(null)\<close> reads as a
  record with no field set.
\<close>

fun typeBuilder :: "nat \<Rightarrow> Module \<Rightarrow> (ctor \<rightharpoonup> ctor) \<Rightarrow> tbuilder" where
  "typeBuilder 0 m b type rebuild bs = None"
| "typeBuilder (Suc n) m b type rebuild bs =
     (if rebuild \<or> bs type = None then
        (let d = (case getData m type of Some d \<Rightarrow> d | None \<Rightarrow> new_DependencyData) in
         if abstract d then return_st (Invoke type) (bs(type \<mapsto> ThrowAbstractInstantiation type))
         else
           bind_st (case construct d of
                      Some ds \<Rightarrow> arrayBuilder b (\<lambda>t r s. typeBuilder n m b t r s) ds bs
                    | None \<Rightarrow> return_st [] bs)
             (\<lambda>constructParams bs1.
                bind_st (injectBuilder m b (\<lambda>t r s. typeBuilder n m b t r s) type bs1)
                  (\<lambda>injections bs2.
                     return_st (Invoke type)
                       (bs2(type \<mapsto> Factory type constructParams injections
                              (if falsy (init d) then None else init d) (singleton d))))))
      else return_st (Invoke type) bs)"

text \<open>\<open>build(definition)\<close>: \<open>anyBuilder\<close> with \<open>rebuild\<close> set; the function made is dropped.\<close>

definition build :: "nat \<Rightarrow> Module \<Rightarrow> (ctor \<rightharpoonup> ctor) \<Rightarrow> defn \<Rightarrow> builds \<Rightarrow> (unit, builds) res" where
  "build n m b d bs =
     bind_st (anyBuilder b (\<lambda>t r s. typeBuilder n m b t r s) d True bs) (\<lambda>e. return_st ())"


section \<open>The generated factory, run\<close>

text \<open>
  The classes of the application: what \<open>new type(args)\<close> and \<open>instance[ key ](args)\<close> do,
  each throwing or returning a value.
\<close>

record host =
  new_instance :: "ctor \<Rightarrow> val list \<Rightarrow> error + val"
  call_method :: "val \<Rightarrow> pkey \<Rightarrow> val list \<Rightarrow> error + val"

text \<open>\<open>value && value.then\<close>: the promises, of the application or made by a factory.\<close>

fun thenable :: "val \<Rightarrow> bool" where
  "thenable (Promise p) = True"
| "thenable (Chained r) = True"
| "thenable v = False"

text \<open>
  What a run does, in order.  \<open>Invoked t r evs\<close>: \<open>t[ BUILD ]()\<close> was called, did \<open>evs\<close> and
  threw or returned \<open>r\<close>.  The events of a factory name its type: \<open>Constructed\<close> is the
  call \<open>new type(args)\<close> with its result, \<open>Called\<close> the call of a setter method on the
  instance with its result, \<open>Assigned\<close> the assignment of a value to a property,
  \<open>InitCalled\<close> the call of the init method with its result, \<open>Pinned\<close> the replacement
  of the procedure of a singleton by the function that returns the instance.  The first
  three hold the events of the evaluation of their arguments or value.
\<close>

datatype event =
    Invoked ctor "error + val" "event list"
  | Constructed ctor "event list" "val list" "error + val"
  | Called ctor pkey val "event list" "val list" "error + val"
  | Assigned ctor pkey "event list" val
  | InitCalled ctor pkey val "error + val"
  | Pinned ctor val

text \<open>
  A run changes the functions stored on the types and returns, with them, the exception
  thrown (\<open>Inl\<close>) or the value returned (\<open>Inr\<close>) and the events in order; \<open>None\<close> is a run
  that never returns.
\<close>

type_synonym 'a run = "((error + 'a) \<times> event list \<times> builds) option"

definition bind_run :: "'a run \<Rightarrow> ('a \<Rightarrow> builds \<Rightarrow> 'b run) \<Rightarrow> 'b run" where
  "bind_run r f =
     (case r of
        None \<Rightarrow> None
      | Some (Inl e, evs, bs) \<Rightarrow> Some (Inl e, evs, bs)
      | Some (Inr x, evs, bs) \<Rightarrow>
          (case f x bs of None \<Rightarrow> None | Some (r', evs', bs') \<Rightarrow> Some (r', evs @ evs', bs')))"

definition return_run :: "'a \<Rightarrow> builds \<Rightarrow> 'a run" where
  "return_run x bs = Some (Inr x, [], bs)"

definition did :: "event \<Rightarrow> 'a \<Rightarrow> builds \<Rightarrow> 'a run" where
  "did ev x bs = Some (Inr x, [ev], bs)"

definition failed :: "event \<Rightarrow> error \<Rightarrow> builds \<Rightarrow> 'a run" where
  "failed ev e bs = Some (Inl e, [ev], bs)"

type_synonym invoker = "ctor \<Rightarrow> builds \<Rightarrow> val run"

text \<open>
  The generated expressions, evaluated left to right; \<open>ivk t\<close> is \<open>t[ BUILD ]()\<close>.  What a
  nested factory returns is delivered as it is, a promise too.
\<close>

fun evalExpr :: "invoker \<Rightarrow> expr \<Rightarrow> builds \<Rightarrow> val run"
and evalArray :: "invoker \<Rightarrow> expr list \<Rightarrow> builds \<Rightarrow> val list run"
and evalObject :: "invoker \<Rightarrow> (pkey \<times> expr) list \<Rightarrow> builds \<Rightarrow> (pkey \<times> val) list run"
where
  "evalExpr ivk (Invoke t) bs =
     (case ivk t bs of None \<Rightarrow> None | Some (r, evs, bs') \<Rightarrow> Some (r, [Invoked t r evs], bs'))"
| "evalExpr ivk (ArrayLit es) bs = bind_run (evalArray ivk es bs) (\<lambda>vs. return_run (ArrayV vs))"
| "evalExpr ivk (ObjectLit ps) bs =
     bind_run (evalObject ivk ps bs) (\<lambda>kvs. return_run (ObjectV kvs))"
| "evalArray ivk [] bs = return_run [] bs"
| "evalArray ivk (e # es) bs =
     bind_run (evalExpr ivk e bs)
       (\<lambda>v bs1. bind_run (evalArray ivk es bs1) (\<lambda>vs. return_run (v # vs)))"
| "evalObject ivk [] bs = return_run [] bs"
| "evalObject ivk ((k, e) # ps) bs =
     bind_run (evalExpr ivk e bs)
       (\<lambda>v bs1. bind_run (evalObject ivk ps bs1) (\<lambda>kvs. return_run ((k, v) # kvs)))"

text \<open>\<open>instance[ key ] = value\<close> on an instance or an object literal.\<close>

fun assign :: "val \<Rightarrow> pkey \<Rightarrow> val \<Rightarrow> val" where
  "assign (Instance c args props) k v = Instance c args (map_set props k v)"
| "assign (ObjectV props) k v = ObjectV (map_set props k v)"
| "assign x k v = x"

text \<open>
  The injection statements, in order.  A method result with a \<open>then\<close> is pushed to
  \<open>promises\<close> and not waited for.
\<close>

fun runInjections :: "host \<Rightarrow> invoker \<Rightarrow> ctor \<Rightarrow> stmt list \<Rightarrow> val \<Rightarrow> val list \<Rightarrow> builds
    \<Rightarrow> (val \<times> val list) run" where
  "runInjections h ivk type [] instance promises bs = return_run (instance, promises) bs"
| "runInjections h ivk type (CallMethod k es # rest) instance promises bs =
     (case evalArray ivk es bs of
        None \<Rightarrow> None
      | Some (Inl e, sub, bs1) \<Rightarrow> Some (Inl e, sub, bs1)
      | Some (Inr args, sub, bs1) \<Rightarrow>
          (case call_method h instance k args of
             Inl e \<Rightarrow> failed (Called type k instance sub args (Inl e)) e bs1
           | Inr result \<Rightarrow>
               bind_run (did (Called type k instance sub args (Inr result)) () bs1)
                 (\<lambda>u. runInjections h ivk type rest instance
                         (if thenable result then promises @ [result] else promises))))"
| "runInjections h ivk type (Assign k e # rest) instance promises bs =
     (case evalExpr ivk e bs of
        None \<Rightarrow> None
      | Some (Inl x, sub, bs1) \<Rightarrow> Some (Inl x, sub, bs1)
      | Some (Inr v, sub, bs1) \<Rightarrow>
          bind_run (did (Assigned type k sub v) () bs1)
            (\<lambda>u. runInjections h ivk type rest (assign instance k v) promises))"

text \<open>
  The tail of each of the four branches of the factory:
  \<open>let result = init; singleton; return (result && result.then) ? result.then(...) : instance\<close>.
  \<open>result.then(function() { return instance; })\<close> returns a promise at once; what it
  waits for and does then is \<open>OnInit result instance\<close>.
\<close>

definition initAndReturn :: "host \<Rightarrow> ctor \<Rightarrow> pkey option \<Rightarrow> bool \<Rightarrow> val \<Rightarrow> builds \<Rightarrow> val run" where
  "initAndReturn h type ini sing instance bs =
     bind_run (case ini of
                 None \<Rightarrow> return_run Primitive bs
               | Some k \<Rightarrow>
                   (case call_method h instance k [] of
                      Inl e \<Rightarrow> failed (InitCalled type k instance (Inl e)) e bs
                    | Inr result \<Rightarrow> did (InitCalled type k instance (Inr result)) result bs))
       (\<lambda>result bs1.
          bind_run (if sing then did (Pinned type instance) () (bs1(type \<mapsto> ReturnInstance instance))
                    else return_run () bs1)
            (\<lambda>u. return_run (if thenable result then Chained (OnInit result instance)
                              else instance)))"

text \<open>
  Both branches on \<open>instance.then\<close> continue alike once the instance is there: the
  injections, then, when there are promises, \<open>Promise.all(promises).then(...)\<close>, which
  returns a promise at once (\<open>OnInjected\<close>), else the tail.
\<close>

definition injectAndInit :: "host \<Rightarrow> invoker \<Rightarrow> ctor \<Rightarrow> stmt list \<Rightarrow> pkey option \<Rightarrow> bool
    \<Rightarrow> val \<Rightarrow> builds \<Rightarrow> val run" where
  "injectAndInit h ivk type injections ini sing instance bs =
     bind_run (runInjections h ivk type injections instance [] bs)
       (\<lambda>(instance', promises) bs1.
          if promises \<noteq> []
          then return_run (Chained (OnInjected promises type ini sing instance')) bs1
          else initAndReturn h type ini sing instance' bs1)"

text \<open>
  The factory: the constructor arguments, \<open>new type(args)\<close>, and when the instance has a
  \<open>then\<close>, \<open>instance.then(...)\<close>, which returns a promise at once (\<open>OnConstructed\<close>).
\<close>

definition runFactory :: "host \<Rightarrow> invoker \<Rightarrow> ctor \<Rightarrow> expr list \<Rightarrow> stmt list \<Rightarrow> pkey option
    \<Rightarrow> bool \<Rightarrow> builds \<Rightarrow> val run" where
  "runFactory h ivk type constructParams injections ini sing bs =
     (case evalArray ivk constructParams bs of
        None \<Rightarrow> None
      | Some (Inl e, sub, bs1) \<Rightarrow> Some (Inl e, sub, bs1)
      | Some (Inr args, sub, bs1) \<Rightarrow>
          (case new_instance h type args of
             Inl e \<Rightarrow> failed (Constructed type sub args (Inl e)) e bs1
           | Inr instance \<Rightarrow>
               bind_run (did (Constructed type sub args (Inr instance)) () bs1)
                 (\<lambda>u. if thenable instance
                       then return_run (Chained (OnConstructed instance type injections ini sing))
                       else injectAndInit h ivk type injections ini sing instance)))"

text \<open>
  \<open>type[ BUILD ]()\<close>.  The first argument bounds the depth of nested invocations; a run
  that needs more has no result.  The builder invokes a type only after \<open>typeBuilder\<close> has
  stored a function on the type itself, so the lookup reads the own property; calling a
  missing one throws.
\<close>

fun invoke :: "nat \<Rightarrow> host \<Rightarrow> invoker" where
  "invoke 0 h type bs = None"
| "invoke (Suc n) h type bs =
     (case bs type of
        None \<Rightarrow> Some (Inl TypeError, [], bs)
      | Some (ThrowAbstractInstantiation t) \<Rightarrow> Some (Inl (AbstractInstantiation (name t)), [], bs)
      | Some (Redirect resolved) \<Rightarrow> invoke n h resolved bs
      | Some (ReturnInstance instance) \<Rightarrow> return_run instance bs
      | Some (Factory t constructParams injections ini sing) \<Rightarrow>
          runFactory h (\<lambda>t' bs'. invoke n h t' bs') t constructParams injections ini sing bs)"

text \<open>
  \<open>get(type)()\<close>: the stored function, or \<open>function() { return new type(); }\<close> when the
  type has none.
\<close>

definition get_and_call :: "nat \<Rightarrow> host \<Rightarrow> invoker" where
  "get_and_call n h type bs =
     (case bs type of
        None \<Rightarrow> Some (new_instance h type [], [Constructed type [] [] (new_instance h type [])], bs)
      | Some f \<Rightarrow> invoke n h type bs)"

subsection \<open>Promises, settled\<close>

text \<open>
  A promise of the application is given with the way it settles and a stamp for the time
  it does, relative to the other promises at hand: a lower stamp settles first, and of
  equal stamps the one that was subscribed to first.  \<open>not_before t\<close> is a settlement that
  has to wait for time \<open>t\<close>.
\<close>

fun not_before :: "nat \<Rightarrow> 'a settled \<Rightarrow> 'a settled" where
  "not_before t (Fulfilled t' v) = Fulfilled (max t t') v"
| "not_before t (Rejected t' e) = Rejected (max t t') e"
| "not_before t Pending = Pending"

text \<open>
  \<open>Promise.all\<close>: rejected as soon as one of the promises is, with the rejection that comes
  first in time; else pending when one of them is; else fulfilled, when the last of them
  is, with the array of the values.
\<close>

fun first_rejection :: "val settled list \<Rightarrow> (nat \<times> error) option" where
  "first_rejection [] = None"
| "first_rejection (Rejected t e # ps) =
     (case first_rejection ps of
        None \<Rightarrow> Some (t, e)
      | Some (t', e') \<Rightarrow> if t' < t then Some (t', e') else Some (t, e))"
| "first_rejection (p # ps) = first_rejection ps"

fun fulfilled_values :: "val settled list \<Rightarrow> (nat \<times> val list) option" where
  "fulfilled_values [] = Some (0, [])"
| "fulfilled_values (Fulfilled t v # ps) =
     (case fulfilled_values ps of None \<Rightarrow> None | Some (t', vs) \<Rightarrow> Some (max t t', v # vs))"
| "fulfilled_values (p # ps) = None"

definition Promise_all :: "val settled list \<Rightarrow> val settled" where
  "Promise_all ps =
     (case first_rejection ps of
        Some (t, e) \<Rightarrow> Rejected t e
      | None \<Rightarrow>
          (case fulfilled_values ps of Some (t, vs) \<Rightarrow> Fulfilled t (ArrayV vs) | None \<Rightarrow> Pending))"

text \<open>\<open>result.then(function() { return instance; })\<close>, once \<open>result\<close> has settled.\<close>

fun settle_to :: "val \<Rightarrow> val settled \<Rightarrow> val settled" where
  "settle_to instance (Fulfilled t v) = Fulfilled t instance"
| "settle_to instance (Rejected t e) = Rejected t e"
| "settle_to instance Pending = Pending"

text \<open>
  What the promise returned by \<open>then\<close> takes up from its callback, run at time \<open>t\<close>: the
  exception thrown, the settlement of the promise returned (\<open>st\<close> settles it), or the
  value returned.
\<close>

definition adopt :: "nat \<Rightarrow> (val \<Rightarrow> builds \<Rightarrow> (val settled \<times> event list \<times> builds) option)
    \<Rightarrow> val run \<Rightarrow> (val settled \<times> event list \<times> builds) option" where
  "adopt t st r =
     (case r of
        None \<Rightarrow> None
      | Some (Inl e, evs, bs) \<Rightarrow> Some (Rejected t e, evs, bs)
      | Some (Inr v, evs, bs) \<Rightarrow>
          if thenable v
          then (case st v bs of
                  None \<Rightarrow> None
                | Some (out, evs', bs') \<Rightarrow> Some (not_before t out, evs @ evs', bs'))
          else Some (Fulfilled t v, evs, bs))"

definition after :: "event list \<Rightarrow> (val settled \<times> event list \<times> builds) option
    \<Rightarrow> (val settled \<times> event list \<times> builds) option" where
  "after evs r = (case r of None \<Rightarrow> None | Some (out, evs', bs) \<Rightarrow> Some (out, evs @ evs', bs))"

text \<open>
  The callbacks run after the call that made the promise has returned, when the promise
  waited for is fulfilled and only then.  \<open>settle n h v bs\<close> follows the promise \<open>v\<close> to
  its end, from the functions \<open>bs\<close> stored on the types by then: how \<open>v\<close> settles, what its
  callbacks do on the way, and the functions they leave.  The first argument bounds the
  number of promises made by factories that are followed one inside the other.  A promise
  that is pending for ever leaves its callback unrun.
\<close>

function settle :: "nat \<Rightarrow> host \<Rightarrow> val \<Rightarrow> builds \<Rightarrow> (val settled \<times> event list \<times> builds) option"
and react :: "nat \<Rightarrow> host \<Rightarrow> reaction \<Rightarrow> builds \<Rightarrow> (val settled \<times> event list \<times> builds) option"
and settle_each ::
  "nat \<Rightarrow> host \<Rightarrow> val list \<Rightarrow> builds \<Rightarrow> (val settled list \<times> event list \<times> builds) option"
where
  "settle n h (Promise p) bs = Some (p, [], bs)"
| "settle 0 h (Chained r) bs = None"
| "settle (Suc n) h (Chained r) bs = react n h r bs"
| "settle n h (Instance c args props) bs = Some (Fulfilled 0 (Instance c args props), [], bs)"
| "settle n h (ArrayV vs) bs = Some (Fulfilled 0 (ArrayV vs), [], bs)"
| "settle n h (ObjectV kvs) bs = Some (Fulfilled 0 (ObjectV kvs), [], bs)"
| "settle n h Primitive bs = Some (Fulfilled 0 Primitive, [], bs)"
| "react n h (OnConstructed awaited type injections ini sing) bs =
     (case settle n h awaited bs of
        None \<Rightarrow> None
      | Some (Fulfilled t instance, evs, bs1) \<Rightarrow>
          after evs (adopt t (\<lambda>v bs'. settle n h v bs')
            (injectAndInit h (\<lambda>t' bs'. invoke n h t' bs') type injections ini sing instance bs1))
      | Some (Rejected t e, evs, bs1) \<Rightarrow> Some (Rejected t e, evs, bs1)
      | Some (Pending, evs, bs1) \<Rightarrow> Some (Pending, evs, bs1))"
| "react n h (OnInjected promises type ini sing instance) bs =
     (case settle_each n h promises bs of
        None \<Rightarrow> None
      | Some (outs, evs, bs1) \<Rightarrow>
          (case Promise_all outs of
             Fulfilled t vs \<Rightarrow>
               after evs (adopt t (\<lambda>v bs'. settle n h v bs')
                 (initAndReturn h type ini sing instance bs1))
           | Rejected t e \<Rightarrow> Some (Rejected t e, evs, bs1)
           | Pending \<Rightarrow> Some (Pending, evs, bs1)))"
| "react n h (OnInit awaited instance) bs =
     (case settle n h awaited bs of
        None \<Rightarrow> None
      | Some (out, evs, bs1) \<Rightarrow> Some (settle_to instance out, evs, bs1))"
| "settle_each n h [] bs = Some ([], [], bs)"
| "settle_each n h (p # ps) bs =
     (case settle n h p bs of
        None \<Rightarrow> None
      | Some (out, evs, bs1) \<Rightarrow>
          (case settle_each n h ps bs1 of
             None \<Rightarrow> None
           | Some (outs, evs', bs2) \<Rightarrow> Some (out # outs, evs @ evs', bs2)))"
  by pat_completeness auto
termination
  by (relation "measures
        [\<lambda>x. case x of
           Inl (n, h, v, bs) \<Rightarrow> 3 * n
         | Inr (Inl (n, h, r, bs)) \<Rightarrow> 3 * n + 2
         | Inr (Inr (n, h, ps, bs)) \<Rightarrow> 3 * n + 1,
         \<lambda>x. case x of
           Inr (Inr (n, h, ps, bs)) \<Rightarrow> length ps
         | _ \<Rightarrow> 0]")
     auto

section \<open>container.js\<close>

subsection \<open>Stack\<close>

text \<open>
  The \<open>Set\<close> of the stack holds whatever values are added to it or deleted from it: types
  are added, and \<open>pop\<close> deletes what \<open>this.stack.pop()\<close> returns, an origin string (or
  \<open>undefined\<close> for an empty array).
\<close>

datatype jsval = Fn ctor | Str string | Undef

record Stack =
  set' :: "jsval set"
  stack :: "string list"

definition new_Stack :: Stack where
  "new_Stack = \<lparr>set' = {}, stack = []\<rparr>"

definition push :: "ctor \<Rightarrow> string \<Rightarrow> Stack \<Rightarrow> Stack" where
  "push type origin st = st\<lparr>set' := insert (Fn type) (set' st), stack := stack st @ [origin]\<rparr>"

definition pop :: "Stack \<Rightarrow> Stack" where
  "pop st = st\<lparr>set' := set' st - {case stack st of [] \<Rightarrow> Undef | _ \<Rightarrow> Str (last (stack st))},
               stack := butlast (stack st)\<rparr>"

definition has :: "Stack \<Rightarrow> ctor \<Rightarrow> bool" where
  "has st type = (Fn type \<in> set' st)"

definition origins :: "Stack \<Rightarrow> string list" where
  "origins st = stack st"

subsection \<open>validate\<close>

type_synonym tvalidator = "ctor \<Rightarrow> Stack \<Rightarrow> (unit, Stack) res"

text \<open>
  \<open>validateDefinition\<close>, \<open>walkArray\<close>, \<open>walkObject\<close>; \<open>vt\<close> is \<open>validateType\<close>.  Reading
  \<open>definition.prototype\<close> of \<open>undefined\<close> throws.
\<close>

fun validateDefinition :: "tvalidator \<Rightarrow> defn \<Rightarrow> Stack \<Rightarrow> (unit, Stack) res"
and walkArray :: "tvalidator \<Rightarrow> defn list \<Rightarrow> Stack \<Rightarrow> (unit, Stack) res"
and walkObject :: "tvalidator \<Rightarrow> (okey \<times> defn) list \<Rightarrow> Stack \<Rightarrow> (unit, Stack) res"
where
  "validateDefinition vt (ArrayDef ds) st = walkArray vt ds st"
| "validateDefinition vt (ObjectDef kvs) st = walkObject vt kvs st"
| "validateDefinition vt Undefined st = throw_st TypeError st"
| "validateDefinition vt (TypeRef t) st = vt t st"
| "walkArray vt [] st = return_st () st"
| "walkArray vt (d # ds) st = bind_st (validateDefinition vt d st) (\<lambda>u. walkArray vt ds)"
| "walkObject vt [] st = return_st () st"
| "walkObject vt ((k, d) # kvs) st = bind_st (validateDefinition vt d st) (\<lambda>u. walkObject vt kvs)"

text \<open>The origin pushed for an injection point.\<close>

definition inject_origin :: "ctor \<Rightarrow> pkey \<Rightarrow> bool \<Rightarrow> string" where
  "inject_origin type k meth =
     name type @ (case k of SymKey d \<Rightarrow> ''[Symbol('' @ d @ '')]'' | StrKey s \<Rightarrow> ''.'' @ s)
       @ (if meth then ''()'' else [])"

text \<open>
  \<open>validateInjects\<close>: the loop over \<open>data.injects\<close> inside the loop over the constructor
  chain, with the keys seen in \<open>properties\<close>.
\<close>

fun validateInjects_injects ::
  "tvalidator \<Rightarrow> ctor \<Rightarrow> inject list \<Rightarrow> pkey set \<Rightarrow> Stack \<Rightarrow> (pkey set, Stack) res" where
  "validateInjects_injects vt type [] properties st = return_st properties st"
| "validateInjects_injects vt type (i # rest) properties st =
     (if inj_key i \<in> properties then validateInjects_injects vt type rest properties st
      else
        bind_st (validateDefinition vt (inj_definition i)
                   (push type (inject_origin type (inj_key i) (inj_method i)) st))
          (\<lambda>u st1. validateInjects_injects vt type rest (insert (inj_key i) properties) (pop st1)))"

fun validateInjects_chain ::
  "Module \<Rightarrow> tvalidator \<Rightarrow> ctor \<Rightarrow> ctor list \<Rightarrow> pkey set \<Rightarrow> Stack \<Rightarrow> (pkey set, Stack) res" where
  "validateInjects_chain m vt type [] properties st = return_st properties st"
| "validateInjects_chain m vt type (constructor # rest) properties st =
     (case getData m constructor of
        None \<Rightarrow> validateInjects_chain m vt type rest properties st
      | Some d \<Rightarrow>
          bind_st (validateInjects_injects vt type (injects d) properties st)
            (\<lambda>properties'. validateInjects_chain m vt type rest properties'))"

definition validateInjects :: "Module \<Rightarrow> tvalidator \<Rightarrow> ctor \<Rightarrow> Stack \<Rightarrow> (unit, Stack) res" where
  "validateInjects m vt type st =
     bind_st (validateInjects_chain m vt type (constructorChain type) {} st) (\<lambda>ps. return_st ())"

text \<open>
  \<open>validateType\<close>.  The first argument bounds the depth of nested calls of
  \<open>validateType\<close>; a walk that needs more has no result, and neither has one whose
  \<open>resolve\<close> never returns.
\<close>

fun validateType :: "nat \<Rightarrow> Module \<Rightarrow> (ctor \<rightharpoonup> ctor) \<Rightarrow> tvalidator" where
  "validateType 0 m b type st = None"
| "validateType (Suc n) m b type st =
     (case resolve b type of
        None \<Rightarrow> None
      | Some resolved \<Rightarrow>
          if has st resolved then
            throw_st (CircularDependency (origins st) (name type)
                        (if type \<noteq> resolved then Some (name resolved) else None)) st
          else
            (let d = (case getData m type of Some d \<Rightarrow> d | None \<Rightarrow> new_DependencyData) in
             bind_st (case construct d of
                        Some ds \<Rightarrow>
                          bind_st (validateDefinition (\<lambda>t s. validateType n m b t s) (ArrayDef ds)
                                     (push type (name type @ ''(constructor)'') st))
                            (\<lambda>u st1. return_st () (pop st1))
                      | None \<Rightarrow> return_st () st)
               (\<lambda>u. validateInjects m (\<lambda>t s. validateType n m b t s) type)))"

definition validate :: "nat \<Rightarrow> Module \<Rightarrow> (ctor \<rightharpoonup> ctor) \<Rightarrow> ctor \<Rightarrow> (error + unit) option" where
  "validate n m b type = map_option fst (validateType n m b type new_Stack)"

subsection \<open>BoundContainer\<close>

record BoundContainer =
  BINDING :: "ctor \<rightharpoonup> ctor"
  BUILD :: builds

text \<open>The body of the listener and of the loop of the constructor: validate, then build.\<close>

definition validate_and_build ::
  "nat \<Rightarrow> Module \<Rightarrow> ctor \<Rightarrow> BoundContainer \<Rightarrow> (unit, BoundContainer) res" where
  "validate_and_build n m type c =
     (case validate n m (BINDING c) type of
        None \<Rightarrow> None
      | Some (Inl e) \<Rightarrow> Some (Inl e, c)
      | Some (Inr u) \<Rightarrow>
          (case build n m (BINDING c) (TypeRef type) (BUILD c) of
             None \<Rightarrow> None
           | Some (r, bs) \<Rightarrow> Some (r, c\<lparr>BUILD := bs\<rparr>)))"

fun prebuild :: "nat \<Rightarrow> Module \<Rightarrow> ctor list \<Rightarrow> BoundContainer \<Rightarrow> (unit, BoundContainer) res" where
  "prebuild n m [] c = return_st () c"
| "prebuild n m (type # rest) c = bind_st (validate_and_build n m type c) (\<lambda>u. prebuild n m rest)"

definition new_BoundContainer :: "nat \<Rightarrow> Module \<Rightarrow> (unit, BoundContainer) res" where
  "new_BoundContainer n m = prebuild n m (types_of m) \<lparr>BINDING = Map.empty, BUILD = Map.empty\<rparr>"

definition bind ::
  "nat \<Rightarrow> Module \<Rightarrow> ctor \<Rightarrow> ctor \<Rightarrow> BoundContainer \<Rightarrow> (unit, BoundContainer) res" where
  "bind n m type implementation c =
     (let c1 = c\<lparr>BINDING := (BINDING c)(type \<mapsto> implementation)\<rparr> in
      case validate n m (BINDING c1) implementation of
        None \<Rightarrow> None
      | Some (Inl e) \<Rightarrow> Some (Inl e, c1)
      | Some (Inr u) \<Rightarrow>
          (case build n m (BINDING c1) (TypeRef type) (BUILD c1) of
             None \<Rightarrow> None
           | Some (r, bs) \<Rightarrow> Some (r, c1\<lparr>BUILD := bs\<rparr>)))"

text \<open>
  \<open>create(type)\<close>: the result, the container as the call leaves it, and what the call
  did.  \<open>await\<close> follows a promise that \<open>create\<close> has returned to its end, later.
\<close>

definition create :: "nat \<Rightarrow> host \<Rightarrow> ctor \<Rightarrow> BoundContainer
    \<Rightarrow> ((error + val) \<times> BoundContainer \<times> event list) option" where
  "create n h type c =
     (case get_and_call n h type (BUILD c) of
        None \<Rightarrow> None
      | Some (r, evs, bs) \<Rightarrow> Some (r, c\<lparr>BUILD := bs\<rparr>, evs))"


subsection \<open>A store with the containers listening to it\<close>

text \<open>
  \<open>module.on(Module.UPDATE, ...)\<close> registers the listener of a container before the
  constructor validates anything, so a container whose constructor throws keeps listening.
  The emitter (package \<open>@6pm/emit\<close>) is taken to call the listeners in the order of
  registration, the exception of one of them leaving \<open>emit\<close> at once.
\<close>

record world =
  store :: Module
  containers :: "BoundContainer list"

fun emit :: "nat \<Rightarrow> Module \<Rightarrow> ctor \<Rightarrow> BoundContainer list \<Rightarrow> (unit, BoundContainer list) res" where
  "emit n m type [] = return_st () []"
| "emit n m type (c # cs) =
     (case validate_and_build n m type c of
        None \<Rightarrow> None
      | Some (Inl e, c1) \<Rightarrow> Some (Inl e, c1 # cs)
      | Some (Inr u, c1) \<Rightarrow>
          (case emit n m type cs of None \<Rightarrow> None | Some (r, cs1) \<Rightarrow> Some (r, c1 # cs1)))"

fun emit_all ::
  "nat \<Rightarrow> Module \<Rightarrow> ctor list \<Rightarrow> BoundContainer list \<Rightarrow> (unit, BoundContainer list) res" where
  "emit_all n m [] cs = return_st () cs"
| "emit_all n m (type # rest) cs = bind_st (emit n m type cs) (\<lambda>u. emit_all n m rest)"

text \<open>A declaration made on the store of a world, with the listeners run for what it emits.\<close>

definition declare_in :: "nat \<Rightarrow> (Module \<Rightarrow> declared) \<Rightarrow> world \<Rightarrow> (unit, world) res" where
  "declare_in n decl w =
     (case decl (store w) of
        (m1, Inl e) \<Rightarrow> Some (Inl e, w\<lparr>store := m1\<rparr>)
      | (m1, Inr emitted) \<Rightarrow>
          (case emit_all n m1 emitted (containers w) of
             None \<Rightarrow> None
           | Some (r, cs) \<Rightarrow> Some (r, \<lparr>store = m1, containers = cs\<rparr>)))"

text \<open>\<open>new BoundContainer(module)\<close> in a world; the result is the index of the container.\<close>

definition new_Container :: "nat \<Rightarrow> world \<Rightarrow> (nat, world) res" where
  "new_Container n w =
     (case new_BoundContainer n (store w) of
        None \<Rightarrow> None
      | Some (Inl e, c) \<Rightarrow> Some (Inl e, w\<lparr>containers := containers w @ [c]\<rparr>)
      | Some (Inr u, c) \<Rightarrow>
          Some (Inr (length (containers w)), w\<lparr>containers := containers w @ [c]\<rparr>))"

section \<open>Notions used to state the properties\<close>

text \<open>
  \<open>follow b k t\<close> is the type reached from \<open>t\<close> after \<open>k\<close> redirections of the binding
  table \<open>b\<close>, when there are that many.
\<close>

fun follow :: "(ctor \<rightharpoonup> ctor) \<Rightarrow> nat \<Rightarrow> ctor \<Rightarrow> ctor option" where
  "follow b 0 t = Some t"
| "follow b (Suc k) t = (case b t of None \<Rightarrow> None | Some t' \<Rightarrow> follow b k t')"




text \<open>
  The expression the builder generates for a definition under the binding table \<open>b\<close>: each
  type is replaced by the invocation of the procedure of the type it resolves to.  (For
  \<open>undefined\<close> the builder throws and generates nothing.)
\<close>

fun expr_of :: "(ctor \<rightharpoonup> ctor) \<Rightarrow> defn \<Rightarrow> expr" where
  "expr_of b (TypeRef t) = Invoke (case resolve b t of Some r \<Rightarrow> r | None \<Rightarrow> t)"
| "expr_of b (ArrayDef ds) = ArrayLit (map (expr_of b) ds)"
| "expr_of b (ObjectDef kvs) = ObjectLit (map (\<lambda>(k, d). (Rep_okey k, expr_of b d)) kvs)"
| "expr_of b Undefined = ArrayLit []"

text \<open>The injection statement for a declaration.\<close>

definition inject_stmt :: "(ctor \<rightharpoonup> ctor) \<Rightarrow> inject \<Rightarrow> stmt" where
  "inject_stmt b i =
     (if inj_method i
      then CallMethod (inj_key i)
             (case inj_definition i of ArrayDef ds \<Rightarrow> map (expr_of b) ds | _ \<Rightarrow> [])
      else Assign (inj_key i) (expr_of b (inj_definition i)))"

fun stmt_key :: "stmt \<Rightarrow> pkey" where
  "stmt_key (CallMethod k es) = k"
| "stmt_key (Assign k e) = k"








text \<open>
  The properties of an instance or object literal, and \<open>holds final ev\<close>: the value that
  the event \<open>ev\<close> assigned is the value of that property of \<open>final\<close>.
\<close>

fun is_object :: "val \<Rightarrow> bool" where
  "is_object (Instance c args props) = True"
| "is_object (ObjectV props) = True"
| "is_object v = False"




section \<open>Example applications\<close>

definition ex_A :: ctor where "ex_A = Class 1 ''A'' Object"
definition ex_B :: ctor where "ex_B = Class 2 ''B'' Object"
definition ex_C :: ctor where "ex_C = Class 3 ''C'' Object"
definition ex_D :: ctor where "ex_D = Class 4 ''D'' Object"
definition ex_E :: ctor where "ex_E = Class 5 ''E'' Object"

text \<open>Classes without methods.\<close>

definition no_methods :: "ctor \<Rightarrow> pkey \<Rightarrow> member option" where
  "no_methods = (\<lambda>c k. None)"

text \<open>
  A diamond: \<open>A\<close> is constructed from a \<open>B\<close> and a \<open>C\<close>, each of them from a \<open>D\<close>, and
  \<open>D\<close> from an \<open>E\<close>.
\<close>

definition diamond :: Module where
  "diamond =
     fst (declareInject
       (fst (declareInject
         (fst (declareInject
           (fst (declareInject (new_Module no_methods) ex_A None [TypeRef ex_B, TypeRef ex_C]))
           ex_B None [TypeRef ex_D]))
         ex_C None [TypeRef ex_D]))
       ex_D None [TypeRef ex_E])"

text \<open>The table after \<open>bind(A, B)\<close> and \<open>bind(B, C)\<close>, and the container after \<open>bind(A, B)\<close>.\<close>

definition chain_AB_BC :: "ctor \<rightharpoonup> ctor" where
  "chain_AB_BC = [ex_A \<mapsto> ex_B, ex_B \<mapsto> ex_C]"

definition container_AB :: BoundContainer where
  "container_AB = \<lparr>BINDING = [ex_A \<mapsto> ex_B], BUILD = Map.empty\<rparr>"

text \<open>
  A store for a class \<open>A\<close> with one method \<open>a\<close>, classes whose constructors and methods
  return at once, and a world with one container made while the store was empty.
\<close>

definition methods_a :: "ctor \<Rightarrow> pkey \<Rightarrow> member option" where
  "methods_a = (\<lambda>c k. if c = ex_A \<and> k = StrKey ''a'' then Some UserFunction else None)"

definition plain_host :: host where
  "plain_host = \<lparr>new_instance = (\<lambda>c args. Inr (Instance c args [])),
                  call_method = (\<lambda>v k args. Inr Primitive)\<rparr>"

definition empty_container :: BoundContainer where
  "empty_container = \<lparr>BINDING = Map.empty, BUILD = Map.empty\<rparr>"

definition world_one_container :: world where
  "world_one_container = \<lparr>store = new_Module methods_a, containers = [empty_container]\<rparr>"

text \<open>The store after \<open>declareAbstract(A, 'a')\<close>, and after \<open>declareAbstract(A, 'b')\<close>.\<close>

definition store_abstract_method :: Module where
  "store_abstract_method = fst (declareAbstract (new_Module methods_a) ex_A (Some (StrKey ''a'')))"

definition store_failed_abstract :: Module where
  "store_failed_abstract = fst (declareAbstract (new_Module methods_a) ex_A (Some (StrKey ''b'')))"















section \<open>Properties of resolve\<close>

declare resolve.simps [code]

lemma resolve_unbound: "b t = None \<Longrightarrow> resolve b t = Some t"
  by (subst resolve.simps) simp

lemma resolve_bound: "b t = Some t' \<Longrightarrow> resolve b t = resolve b t'"
  by (subst resolve.simps) simp

lemma resolve_follow: "follow b k t = Some u \<Longrightarrow> b u = None \<Longrightarrow> resolve b t = Some u"
proof (induction k arbitrary: t)
  case 0
  then show ?case by (simp add: resolve_unbound)
next
  case (Suc k)
  then obtain t' where t': "b t = Some t'" "follow b k t' = Some u"
    by (auto split: option.splits)
  with Suc show ?case by (simp add: resolve_bound)
qed

text \<open>A result of \<open>resolve\<close> is reached by finitely many redirections and has no binding.\<close>

lemma resolve_Some_follow: "resolve b t = Some u \<Longrightarrow> \<exists>k. follow b k t = Some u \<and> b u = None"
proof (induction rule: resolve.raw_induct[rotated 1, consumes 1])
  case (1 res b t u)
  show ?case
  proof (cases "b t")
    case None
    with 1(2) have "u = t" by simp
    with None have "follow b 0 t = Some u \<and> b u = None" by simp
    then show ?thesis by blast
  next
    case (Some t')
    with 1(2) have "res b t' = Some u" by simp
    from 1(1)[OF this] obtain k where "follow b k t' = Some u \<and> b u = None" by blast
    with Some have "follow b (Suc k) t = Some u \<and> b u = None" by simp
    then show ?thesis by blast
  qed
qed

lemma follow_add:
  "follow b (i + j) t = (case follow b i t of None \<Rightarrow> None | Some v \<Rightarrow> follow b j v)"
  by (induction i arbitrary: t) (auto split: option.splits)

lemma follow_cycle: "follow b (Suc k) v = Some v \<Longrightarrow> follow b (n * Suc k) v = Some v"
proof (induction n)
  case 0
  then show ?case by simp
next
  case (Suc n)
  have "Suc n * Suc k = n * Suc k + Suc k" by simp
  then have "follow b (Suc n * Suc k) v = follow b (n * Suc k + Suc k) v" by (rule arg_cong)
  also have "\<dots> = Some v" using Suc by (simp only: follow_add) simp
  finally show ?case .
qed

lemma follow_stuck: "follow b k t = Some u \<Longrightarrow> b u = None \<Longrightarrow> follow b (k + Suc j) t = None"
  by (simp only: follow_add) simp

lemma cycle_no_fixed_point:
  assumes "follow b i t = Some v" "follow b (Suc k) v = Some v"
  shows "resolve b t = None"
proof (rule ccontr)
  assume "resolve b t \<noteq> None"
  then obtain u where "resolve b t = Some u" by blast
  from resolve_Some_follow[OF this] obtain l where l: "follow b l t = Some u" "b u = None"
    by blast
  have "follow b (i + Suc l * Suc k) t = Some v"
    using assms(1) follow_cycle[OF assms(2), of "Suc l"] by (simp only: follow_add) simp
  moreover have "i + Suc l * Suc k = l + Suc (i + l * k + k)" by simp
  ultimately have "follow b (l + Suc (i + l * k + k)) t = Some v" by (simp only:)
  with follow_stuck[OF l, of "i + l * k + k"] show False by simp
qed

lemma validate_resolve_None: "resolve b t = None \<Longrightarrow> validate n m b t = None"
  by (cases n) (simp_all add: validate_def)

text \<open>
  C7.  When the chain of redirections from \<open>t\<close> reaches, after some \<open>k\<close> steps, a type \<open>u\<close>
  with no outgoing binding, \<open>resolve\<close> returns \<open>u\<close>.  \<open>resolve\<close> reads the binding table and
  writes nothing: it is a function of the table and the type, so a repeated call returns
  the same type; resolving the result again returns it unchanged.
\<close>

theorem resolve_reaches_fixed_point:
  assumes "follow b k t = Some u" and "b u = None"
  shows "resolve b t = Some u \<and> resolve b u = Some u"
  using assms by (simp add: resolve_follow resolve_unbound)

theorem resolve_reaches_fixed_point_witness:
  "follow chain_AB_BC 2 ex_A = Some ex_C \<and> chain_AB_BC ex_C = None
   \<and> resolve chain_AB_BC ex_A = Some ex_C \<and> resolve chain_AB_BC ex_C = Some ex_C"
proof -
  have h1: "follow chain_AB_BC 2 ex_A = Some ex_C" by code_simp
  have h2: "chain_AB_BC ex_C = None" by code_simp
  from resolve_reaches_fixed_point [OF h1 h2] h1 h2 show ?thesis by simp
qed

text \<open>
  C10.  When the binding table has a cycle that is reached from \<open>t\<close> (after \<open>i\<close>
  redirections a type \<open>v\<close> that leads back to itself), \<open>resolve\<close> on \<open>t\<close> never returns;
  neither does \<open>validate\<close> on \<open>t\<close>, whatever the depth allowed, nor the call of \<open>bind\<close> that
  has just closed the cycle.  \<open>bind\<close> has no result at all there, so no
  \<open>CircularDependency\<close> either.
\<close>

theorem binding_cycle_never_returns:
  assumes "follow b i t = Some v" and "follow b (Suc k) v = Some v"
  shows "resolve b t = None \<and> (\<forall>n m. validate n m b t = None)
         \<and> (\<forall>n m type c. (BINDING c)(type \<mapsto> t) = b \<longrightarrow> bind n m type t c = None)"
proof -
  have r: "resolve b t = None" using assms by (rule cycle_no_fixed_point)
  then have v: "\<And>n m. validate n m b t = None" by (rule validate_resolve_None)
  have "bind n m type t c = None" if "(BINDING c)(type \<mapsto> t) = b" for n m type c
    using that v [of n m] by (simp add: bind_def Let_def)
  with r v show ?thesis by blast
qed

theorem binding_cycle_never_returns_witness:
  "follow [ex_A \<mapsto> ex_B, ex_B \<mapsto> ex_A] 0 ex_A = Some ex_A
   \<and> follow [ex_A \<mapsto> ex_B, ex_B \<mapsto> ex_A] (Suc 1) ex_A = Some ex_A
   \<and> resolve [ex_A \<mapsto> ex_B, ex_B \<mapsto> ex_A] ex_A = None
   \<and> bind 5 (new_Module no_methods) ex_B ex_A container_AB = None"
proof -
  let ?b = "[ex_A \<mapsto> ex_B, ex_B \<mapsto> ex_A]"
  have h1: "follow ?b 0 ex_A = Some ex_A" by simp
  have h2: "follow ?b (Suc 1) ex_A = Some ex_A" by (simp add: ex_A_def ex_B_def)
  have h3: "(BINDING container_AB)(ex_B \<mapsto> ex_A) = ?b" by (simp add: container_AB_def)
  from binding_cycle_never_returns [OF h1 h2] h1 h2 h3 show ?thesis by blast
qed

section \<open>Properties of the declarations\<close>

lemma map_of_map_set: "map_of (map_set kvs k v) = (map_of kvs)(k \<mapsto> v)"
  by (induction kvs) auto

lemma createData_result:
  "createData m type f = (d, m1) \<Longrightarrow> getData m1 type = Some d \<and> prototypes m1 = prototypes m"
  by (auto simp: createData_def Let_def getData_def map_of_map_set split: if_splits)

lemma createData_abstract:
  "createData m type (\<lambda>d. d\<lparr>abstract := True\<rparr>) = (d, m1) \<Longrightarrow> abstract d"
  by (auto simp: createData_def Let_def split: if_splits)

lemma prototype_get_cong: "prototypes m1 = prototypes m \<Longrightarrow> prototype_get m1 = prototype_get m"
  by (intro ext) (simp add: prototype_get_def)

lemma declareAbstract_invalid:
  assumes "k \<noteq> StrKey []" and "\<not> is_Function (prototype_get m type k)"
  shows "snd (declareAbstract m type (Some k)) = Inl InvalidAbstractTarget"
    and "map_option abstract (getData (fst (declareAbstract m type (Some k))) type) = Some True"
proof -
  obtain d m1 where c: "createData m type (\<lambda>d. d\<lparr>abstract := True\<rparr>) = (d, m1)"
    by (meson surj_pair)
  from createData_result [OF c] have g: "getData m1 type = Some d"
    and p: "prototypes m1 = prototypes m" by simp_all
  from assms prototype_get_cong [OF p] have "\<not> is_Function (prototype_get m1 type k)" by simp
  with assms c have r: "declareAbstract m type (Some k) = (m1, Inl InvalidAbstractTarget)"
    by (simp add: declareAbstract_def falsy_def)
  from r show "snd (declareAbstract m type (Some k)) = Inl InvalidAbstractTarget" by simp
  from r g createData_abstract [OF c]
  show "map_option abstract (getData (fst (declareAbstract m type (Some k))) type) = Some True"
    by simp
qed

text \<open>Building a type whose record is marked abstract installs the function that throws.\<close>

lemma build_abstract:
  assumes "map_option abstract (getData m type) = Some True" and "resolve b type = Some type"
  shows "build (Suc n) m b (TypeRef type) bs
         = Some (Inr (), bs(type \<mapsto> ThrowAbstractInstantiation type))"
  using assms by (auto simp: build_def bind_st_def return_st_def)

lemma create_abstract:
  assumes "BUILD c type = Some (ThrowAbstractInstantiation type)"
  shows "create (Suc n) h type c = Some (Inl (AbstractInstantiation (name type)), c, [])"
  using assms by (simp add: create_def get_and_call_def)

text \<open>A declaration that emits nothing leaves the containers as they are.\<close>

lemma declare_in_silent:
  "snd (decl (store w)) = Inr [] \<Longrightarrow>
   declare_in n decl w = Some (Inr (), \<lparr>store = fst (decl (store w)), containers = containers w\<rparr>)"
  by (cases "decl (store w)") (simp add: declare_in_def return_st_def)

lemma abstract_method_silent:
  "snd (declareAbstract (new_Module methods_a) ex_A (Some (StrKey ''a''))) = Inr []"
  by code_simp

lemma abstract_method_marked:
  "map_option abstract (getData store_abstract_method ex_A) = Some True"
  by code_simp

lemma abstract_method_world:
  "declare_in n (\<lambda>m. declareAbstract m ex_A (Some (StrKey ''a''))) world_one_container
   = Some (Inr (), \<lparr>store = store_abstract_method, containers = [empty_container]\<rparr>)"
proof -
  have "snd (declareAbstract (store world_one_container) ex_A (Some (StrKey ''a''))) = Inr []"
    using abstract_method_silent by (simp add: world_one_container_def)
  then show ?thesis
    by (simp add: declare_in_silent world_one_container_def store_abstract_method_def)
qed

text \<open>
  C9.  \<open>declareAbstract(type, key)\<close> with a key that names no function on the prototype of
  the type throws the invalid-target error, and the store it leaves has a record for the
  type that is marked abstract.  A container that builds the type from that store (as a
  new container does for every type of the store), the type being bound to nothing, gets
  the function that throws, and \<open>create(type)\<close> on it fails with the abstract-instantiation
  error.
\<close>

theorem declareAbstract_marks_before_check:
  assumes "k \<noteq> StrKey []" and "\<not> is_Function (prototype_get m type k)"
  shows "snd (declareAbstract m type (Some k)) = Inl InvalidAbstractTarget
    \<and> map_option abstract (getData (fst (declareAbstract m type (Some k))) type) = Some True
    \<and> (\<forall>n b bs. resolve b type = Some type \<longrightarrow>
          build (Suc n) (fst (declareAbstract m type (Some k))) b (TypeRef type) bs
            = Some (Inr (), bs(type \<mapsto> ThrowAbstractInstantiation type))
          \<and> (\<forall>j h. create (Suc j) h type
                       \<lparr>BINDING = b, BUILD = bs(type \<mapsto> ThrowAbstractInstantiation type)\<rparr>
                = Some (Inl (AbstractInstantiation (name type)),
                        \<lparr>BINDING = b, BUILD = bs(type \<mapsto> ThrowAbstractInstantiation type)\<rparr>, [])))"
  using declareAbstract_invalid [OF assms]
  by (simp add: build_abstract create_abstract)

theorem declareAbstract_marks_before_check_witness:
  "StrKey ''b'' \<noteq> StrKey [] \<and> \<not> is_Function (prototype_get (new_Module methods_a) ex_A (StrKey ''b''))
   \<and> snd (declareAbstract (new_Module methods_a) ex_A (Some (StrKey ''b''))) = Inl InvalidAbstractTarget
   \<and> map_option abstract (getData store_failed_abstract ex_A) = Some True
   \<and> map_option fst (new_BoundContainer 1 store_failed_abstract) = Some (Inr ())
   \<and> map_option (\<lambda>r. BUILD (snd r) ex_A) (new_BoundContainer 1 store_failed_abstract)
       = Some (Some (ThrowAbstractInstantiation ex_A))
   \<and> create 1 plain_host ex_A
        \<lparr>BINDING = Map.empty, BUILD = [ex_A \<mapsto> ThrowAbstractInstantiation ex_A]\<rparr>
       = Some (Inl (AbstractInstantiation ''A''),
               \<lparr>BINDING = Map.empty, BUILD = [ex_A \<mapsto> ThrowAbstractInstantiation ex_A]\<rparr>, [])"
proof -
  have h1: "StrKey ''b'' \<noteq> StrKey []" by simp
  have h2: "\<not> is_Function (prototype_get (new_Module methods_a) ex_A (StrKey ''b''))"
    by code_simp
  have h3: "resolve Map.empty ex_A = Some ex_A" by (simp add: resolve_unbound)
  have h4: "map_option fst (new_BoundContainer 1 store_failed_abstract) = Some (Inr ())"
    by code_simp
  have h5: "map_option (\<lambda>r. BUILD (snd r) ex_A) (new_BoundContainer 1 store_failed_abstract)
       = Some (Some (ThrowAbstractInstantiation ex_A))"
    by code_simp
  from declareAbstract_marks_before_check [OF h1 h2] h1 h2 h3 h4 h5 show ?thesis
    by (simp add: store_failed_abstract_def ex_A_def)
qed

text \<open>
  C8, at a failing input.  \<open>declareAbstract(A, 'a')\<close> for a method \<open>a\<close> of \<open>A\<close> completes
  without error and marks the record of \<open>A\<close> abstract, but emits no event: a container
  listening to the store is left as it was.  The class form \<open>declareAbstract(A)\<close> on the
  same store emits the event for \<open>A\<close>, and the container recompiles \<open>A\<close>.
\<close>

theorem declareAbstract_method_emits_nothing:
  "snd (declareAbstract (new_Module methods_a) ex_A (Some (StrKey ''a''))) = Inr []
   \<and> map_option abstract (getData store_abstract_method ex_A) = Some True
   \<and> declare_in n (\<lambda>m. declareAbstract m ex_A (Some (StrKey ''a''))) world_one_container
       = Some (Inr (), \<lparr>store = store_abstract_method, containers = [empty_container]\<rparr>)
   \<and> snd (declareAbstract (new_Module methods_a) ex_A None) = Inr [ex_A]
   \<and> map_option (\<lambda>r. map (\<lambda>c. BUILD c ex_A) (containers (snd r)))
        (declare_in 1 (\<lambda>m. declareAbstract m ex_A None) world_one_container)
       = Some [Some (ThrowAbstractInstantiation ex_A)]"
proof -
  have "snd (declareAbstract (new_Module methods_a) ex_A None) = Inr [ex_A]" by code_simp
  moreover have "map_option (\<lambda>r. map (\<lambda>c. BUILD c ex_A) (containers (snd r)))
        (declare_in 1 (\<lambda>m. declareAbstract m ex_A None) world_one_container)
       = Some [Some (ThrowAbstractInstantiation ex_A)]" by code_simp
  ultimately show ?thesis
    using abstract_method_silent abstract_method_marked abstract_method_world by simp
qed

text \<open>
  C6, at a failing input.  A container is made on the empty store; then
  \<open>declareAbstract(A, 'a')\<close> marks the record of \<open>A\<close> abstract without an event, so the
  container never compiles \<open>A\<close>; \<open>create(A)\<close> on it, \<open>A\<close> bound to nothing, constructs an
  instance of \<open>A\<close>.
\<close>

theorem abstract_type_created_after_method_declaration:
  "new_Container n \<lparr>store = new_Module methods_a, containers = []\<rparr>
     = Some (Inr 0, world_one_container)
   \<and> declare_in n (\<lambda>m. declareAbstract m ex_A (Some (StrKey ''a''))) world_one_container
       = Some (Inr (), \<lparr>store = store_abstract_method, containers = [empty_container]\<rparr>)
   \<and> map_option abstract (getData store_abstract_method ex_A) = Some True
   \<and> resolve (BINDING empty_container) ex_A = Some ex_A
   \<and> create n plain_host ex_A empty_container
       = Some (Inr (Instance ex_A [] []), empty_container, [Constructed ex_A [] [] (Inr (Instance ex_A [] []))])"
proof -
  have "new_Container n \<lparr>store = new_Module methods_a, containers = []\<rparr>
     = Some (Inr 0, world_one_container)"
    by (simp add: new_Container_def new_BoundContainer_def types_of_def new_Module_def
        return_st_def world_one_container_def empty_container_def)
  moreover have "resolve (BINDING empty_container) ex_A = Some ex_A"
    by (simp add: resolve_unbound empty_container_def)
  moreover have "create n plain_host ex_A empty_container
       = Some (Inr (Instance ex_A [] []), empty_container, [Constructed ex_A [] [] (Inr (Instance ex_A [] []))])"
    by (simp add: create_def get_and_call_def empty_container_def plain_host_def)
  ultimately show ?thesis using abstract_method_marked abstract_method_world by simp
qed

section \<open>Properties of validate\<close>

lemma diamond_data: "data diamond =
  [(ex_A, \<lparr>injects = [], construct = Some [TypeRef ex_B, TypeRef ex_C], init = None,
           abstract = False, singleton = False\<rparr>),
   (ex_B, \<lparr>injects = [], construct = Some [TypeRef ex_D], init = None,
           abstract = False, singleton = False\<rparr>),
   (ex_C, \<lparr>injects = [], construct = Some [TypeRef ex_D], init = None,
           abstract = False, singleton = False\<rparr>),
   (ex_D, \<lparr>injects = [], construct = Some [TypeRef ex_E], init = None,
           abstract = False, singleton = False\<rparr>)]"
  by code_simp

lemma pop_keeps_types: "has (pop st) type = has st type"
  by (simp add: has_def pop_def split: list.splits)

lemma resolve_empty: "resolve Map.empty t = Some t"
  by (simp add: resolve_unbound)

lemma validate_diamond:
  "validate (4 + n) diamond Map.empty ex_A
   = Some (Inl (CircularDependency [''A(constructor)'', ''C(constructor)''] ''D'' None))"
proof -
  have e: "4 + n = Suc (Suc (Suc (Suc n)))" by simp
  show ?thesis unfolding e
    by (simp add: validate_def resolve_empty getData_def diamond_data has_def push_def pop_def
        new_Stack_def origins_def bind_st_def return_st_def throw_st_def validateInjects_def
        ex_A_def ex_B_def ex_C_def ex_D_def ex_E_def new_DependencyData_def)
qed

text \<open>
  C1, at a failing input.  \<open>pop\<close> deletes an origin string from a set of types, so no type
  ever leaves the set: a type is on record as "on the path" from its first push to the end
  of the walk.  On the diamond, where nothing depends on itself, the walk from \<open>A\<close> meets
  \<open>D\<close> below \<open>B\<close>, returns, meets \<open>D\<close> again below \<open>C\<close> and throws the circular-dependency
  error, at every depth that lets the walk get there.
\<close>

theorem diamond_reported_as_cycle:
  "has (pop (push type origin st)) type
   \<and> has (pop st) type = has st type
   \<and> validate (4 + n) diamond Map.empty ex_A
       = Some (Inl (CircularDependency [''A(constructor)'', ''C(constructor)''] ''D'' None))"
  using validate_diamond by (simp add: pop_keeps_types) (simp add: has_def push_def)

section \<open>Properties of the builder\<close>



lemma return_st_Some [simp]: "(return_st x s = Some (Inr y, s')) = (x = y \<and> s = s')"
  by (auto simp: return_st_def)

lemma throw_st_Some [simp]: "throw_st e s \<noteq> Some (Inr y, s')"
  by (auto simp: throw_st_def)







lemma stmt_key_inject_stmt [simp]: "stmt_key (inject_stmt b i) = inj_key i"
  by (simp add: inject_stmt_def)








section \<open>Properties of the generated factory\<close>


lemma return_run_Some [simp]:
  "(return_run x bs = Some (r, evs, bs')) = (r = Inr x \<and> evs = [] \<and> bs' = bs)"
  by (auto simp: return_run_def)

lemma did_Some [simp]:
  "(did ev x bs = Some (r, evs, bs')) = (r = Inr x \<and> evs = [ev] \<and> bs' = bs)"
  by (auto simp: did_def)











section \<open>Injection points along the constructor chain\<close>


lemma is_object_assign [simp]: "is_object (assign inst k v) = is_object inst"
  by (cases inst) simp_all














section \<open>The asynchronous lifecycle\<close>














lemma settle_OnInit:
  "settle (Suc n) h (Chained (OnInit (Promise p) inst)) bs = Some (settle_to inst p, [], bs)"
  by simp

lemma not_before_not_before [simp]:
  "not_before t (not_before t' p) = not_before (max t t') p"
  by (cases p) (simp_all add: max.assoc)












end
